theory Spec2Isabelle
  imports Complex_Main
begin

section \<open>JavaScript values\<close>

text \<open>
  A JavaScript number is a double: a finite value, \<open>Infinity\<close>, \<open>-Infinity\<close> or
  \<open>NaN\<close>. A finite value is kept as the rational it denotes (every finite double is
  one, and negative zero is 0); the program only compares finite values and passes them
  on, so what holds for all rationals holds for the doubles among them.
\<close>

datatype number = NaN | Finite rat | PosInf | NegInf

text \<open>
  Request bodies, form values and stored records are untyped values. A string value is a
  list of characters, of which the program takes only the length and equality; an object
  is a list of key/value pairs read with \<open>map_of\<close>; a property that is absent reads as
  \<open>None\<close> (JavaScript's \<open>undefined\<close>).
\<close>

datatype json =
    JNull
  | JBool bool
  | JNum number
  | JStr string
  | JArr "json list"
  | JObj "(string \<times> json) list"

text \<open>
  A text whose characters the program inspects (the argument of \<open>parseInt\<close>) is a list
  of UTF-16 code units.
\<close>

type_synonym utf16 = "nat list"

definition code_units :: "string \<Rightarrow> utf16" where
  "code_units s = map of_char s"

text \<open>The comparison \<open>x < y\<close> of two numbers: false when either is \<open>NaN\<close>.\<close>

fun num_less :: "number \<Rightarrow> number \<Rightarrow> bool" where
  "num_less NaN y = False"
| "num_less x NaN = False"
| "num_less (Finite a) (Finite b) = (a < b)"
| "num_less (Finite a) PosInf = True"
| "num_less (Finite a) NegInf = False"
| "num_less PosInf y = False"
| "num_less NegInf NegInf = False"
| "num_less NegInf y = True"

text \<open>Strict equality \<open>x === y\<close> of two numbers: \<open>NaN\<close> equals nothing.\<close>

definition strict_eq :: "number \<Rightarrow> number \<Rightarrow> bool" where
  "strict_eq x y = (x \<noteq> NaN \<and> x = y)"

text \<open>
  What a reader gets back from \<open>JSON.stringify(v)\<close>: a number that is not finite is
  written as \<open>null\<close>; every other value is written as it is.
\<close>

fun jsonify :: "json \<Rightarrow> json" where
  "jsonify JNull = JNull"
| "jsonify (JBool b) = JBool b"
| "jsonify (JNum (Finite r)) = JNum (Finite r)"
| "jsonify (JNum x) = JNull"
| "jsonify (JStr s) = JStr s"
| "jsonify (JArr xs) = JArr (map jsonify xs)"
| "jsonify (JObj kvs) = JObj (map (map_prod id jsonify) kvs)"

text \<open>The name zod gives to the type of a value (\<open>getParsedType\<close>).\<close>

fun getParsedType :: "json option \<Rightarrow> string" where
  "getParsedType None = ''undefined''"
| "getParsedType (Some JNull) = ''null''"
| "getParsedType (Some (JBool b)) = ''boolean''"
| "getParsedType (Some (JNum NaN)) = ''nan''"
| "getParsedType (Some (JNum n)) = ''number''"
| "getParsedType (Some (JStr s)) = ''string''"
| "getParsedType (Some (JArr xs)) = ''array''"
| "getParsedType (Some (JObj kvs)) = ''object''"

section \<open>The zod schemas used by the program\<close>

text \<open>
  The program builds its validators from \<open>z.string()\<close> and \<open>z.number()\<close> with
  \<open>min\<close>/\<open>max\<close> checks, collected in a \<open>z.object\<close>. A check carries its bound and the
  custom message, when one is given. An object schema is its shape: the keys, in order,
  with the schema of each.
\<close>

datatype zod_check = Min int "string option" | Max int "string option"

datatype zod_type = ZodString "zod_check list" | ZodNumber "zod_check list"

type_synonym zod_object = "(string \<times> zod_type) list"

text \<open>Decimal rendering of the bound inside zod's default messages.\<close>

definition digit_char :: "nat \<Rightarrow> char" where
  "digit_char d = char_of (48 + d)"

function show_nat :: "nat \<Rightarrow> string" where
  "show_nat n = (if n < 10 then [digit_char n] else show_nat (n div 10) @ [digit_char (n mod 10)])"
  by pat_completeness auto
termination
  by (relation "measure id") auto

declare show_nat.simps [simp del]

definition show_int :: "int \<Rightarrow> string" where
  "show_int i = (if i < 0 then CHR ''-'' # show_nat (nat (- i)) else show_nat (nat i))"

text \<open>
  The issues zod raises are objects, with the keys in the order in which zod sets them.
  A value of the wrong type:
  \<open>{code, expected, received, path, message}\<close>, the message being zod's default.
\<close>

definition invalid_type_issue :: "string list \<Rightarrow> string \<Rightarrow> json option \<Rightarrow> json" where
  "invalid_type_issue p expected v =
     JObj [ (''code'', JStr ''invalid_type''),
            (''expected'', JStr expected),
            (''received'', JStr (getParsedType v)),
            (''path'', JArr (map JStr p)),
            (''message'', JStr (if v = None then ''Required''
                                else ''Expected '' @ expected @ '', received '' @ getParsedType v)) ]"

text \<open>
  A failed \<open>min\<close> or \<open>max\<close> check:
  \<open>{code, minimum | maximum, type, inclusive, exact, message, path}\<close>, the message
  being the check's own when it has one and zod's default otherwise.
\<close>

definition too_small_issue :: "string list \<Rightarrow> string \<Rightarrow> int \<Rightarrow> string \<Rightarrow> json" where
  "too_small_issue p ty n msg =
     JObj [ (''code'', JStr ''too_small''),
            (''minimum'', JNum (Finite (of_int n))),
            (''type'', JStr ty),
            (''inclusive'', JBool True),
            (''exact'', JBool False),
            (''message'', JStr msg),
            (''path'', JArr (map JStr p)) ]"

definition too_big_issue :: "string list \<Rightarrow> string \<Rightarrow> int \<Rightarrow> string \<Rightarrow> json" where
  "too_big_issue p ty n msg =
     JObj [ (''code'', JStr ''too_big''),
            (''maximum'', JNum (Finite (of_int n))),
            (''type'', JStr ty),
            (''inclusive'', JBool True),
            (''exact'', JBool False),
            (''message'', JStr msg),
            (''path'', JArr (map JStr p)) ]"

fun check_string :: "string list \<Rightarrow> string \<Rightarrow> zod_check \<Rightarrow> json list" where
  "check_string p s (Min n m) =
     (if int (length s) < n
      then [too_small_issue p ''string'' n
              (case m of Some t \<Rightarrow> t
               | None \<Rightarrow> ''String must contain at least '' @ show_int n @ '' character(s)'')]
      else [])"
| "check_string p s (Max n m) =
     (if int (length s) > n
      then [too_big_issue p ''string'' n
              (case m of Some t \<Rightarrow> t
               | None \<Rightarrow> ''String must contain at most '' @ show_int n @ '' character(s)'')]
      else [])"

fun check_number :: "string list \<Rightarrow> number \<Rightarrow> zod_check \<Rightarrow> json list" where
  "check_number p x (Min n m) =
     (if num_less x (Finite (of_int n))
      then [too_small_issue p ''number'' n
              (case m of Some t \<Rightarrow> t
               | None \<Rightarrow> ''Number must be greater than or equal to '' @ show_int n)]
      else [])"
| "check_number p x (Max n m) =
     (if num_less (Finite (of_int n)) x
      then [too_big_issue p ''number'' n
              (case m of Some t \<Rightarrow> t
               | None \<Rightarrow> ''Number must be less than or equal to '' @ show_int n)]
      else [])"

text \<open>
  Parsing one property: a value of the wrong type (a missing one, and \<open>NaN\<close> for a
  number) is a single \<open>invalid_type\<close> issue; otherwise every check runs and each failing
  one adds an issue. \<open>Infinity\<close> is a number for \<open>z.number()\<close>.
\<close>

fun parse_type :: "string list \<Rightarrow> zod_type \<Rightarrow> json option \<Rightarrow> json list" where
  "parse_type p (ZodString cs) (Some (JStr s)) = concat (map (check_string p s) cs)"
| "parse_type p (ZodString cs) v = [invalid_type_issue p ''string'' v]"
| "parse_type p (ZodNumber cs) (Some (JNum x)) =
     (if x = NaN then [invalid_type_issue p ''number'' (Some (JNum x))]
      else concat (map (check_number p x) cs))"
| "parse_type p (ZodNumber cs) v = [invalid_type_issue p ''number'' v]"

text \<open>
  \<open>schema.safeParse(input)\<close> for an object schema with the default policy for unknown
  keys (they are stripped): every key of the shape is parsed, in order, and all issues are
  collected; the result is the list of issues, or the object restricted to the shape.
\<close>

definition object_issues :: "zod_object \<Rightarrow> (string \<times> json) list \<Rightarrow> json list" where
  "object_issues shape kvs = concat (map (\<lambda>(k, t). parse_type [k] t (map_of kvs k)) shape)"

definition strip :: "zod_object \<Rightarrow> (string \<times> json) list \<Rightarrow> (string \<times> json) list" where
  "strip shape kvs = List.map_filter (\<lambda>(k, t). map_option (Pair k) (map_of kvs k)) shape"

definition safeParse :: "zod_object \<Rightarrow> json \<Rightarrow> json list + json" where
  "safeParse shape input =
     (case input of
        JObj kvs \<Rightarrow>
          (let issues = object_issues shape kvs
           in if issues = [] then Inr (JObj (strip shape kvs)) else Inl issues)
      | _ \<Rightarrow> Inl [invalid_type_issue [] ''object'' (Some input)])"

text \<open>
  \<open>base.extend(augmentation)\<close>: the shape \<open>{...base, ...augmentation}\<close>. A key of the
  base keeps its place and takes the augmentation's schema when there is one; the new
  keys follow.
\<close>

definition extend_zod :: "zod_object \<Rightarrow> zod_object \<Rightarrow> zod_object" where
  "extend_zod base aug =
     map (\<lambda>(k, t). (k, case map_of aug k of Some t' \<Rightarrow> t' | None \<Rightarrow> t)) base
     @ filter (\<lambda>(k, t). k \<notin> fst ` set base) aug"

text \<open>
  Modelled from the spec: \<open>insertStockSchema\<close>, exported by the module
  \<open>@shared/schema\<close>, which is not among the sources. The specification's validation
  rules for a creation payload are: symbol required, length 1 to 5; name, price, change,
  changePercent and marketCap required, non-empty strings; volume required, numeric,
  at least 0.
\<close>

definition insertStockSchema :: zod_object where
  "insertStockSchema =
     [ (''symbol'', ZodString [Min 1 None, Max 5 None]),
       (''name'', ZodString [Min 1 None]),
       (''price'', ZodString [Min 1 None]),
       (''change'', ZodString [Min 1 None]),
       (''changePercent'', ZodString [Min 1 None]),
       (''volume'', ZodNumber [Min 0 None]),
       (''marketCap'', ZodString [Min 1 None]) ]"

text \<open>\<open>formSchema\<close> of \<open>add-stock-modal.tsx\<close> (first copy of the component).\<close>

definition formSchema :: zod_object where
  "formSchema = extend_zod insertStockSchema
     [ (''symbol'', ZodString [Min 1 (Some ''Symbol is required''),
                               Max 5 (Some ''Symbol must be 5 characters or less'')]),
       (''name'', ZodString [Min 1 (Some ''Company name is required'')]),
       (''price'', ZodString [Min 1 (Some ''Price is required'')]),
       (''change'', ZodString [Min 1 (Some ''Change is required'')]),
       (''changePercent'', ZodString [Min 1 (Some ''Change percent is required'')]),
       (''volume'', ZodNumber [Min 0 (Some ''Volume must be positive'')]),
       (''marketCap'', ZodString [Min 1 (Some ''Market cap is required'')]) ]"

section \<open>JavaScript built-ins used by the program\<close>

text \<open>
  Truthiness, as tested by \<open>!x\<close> and \<open>x || y\<close>: \<open>undefined\<close>, \<open>null\<close>, \<open>false\<close>,
  \<open>0\<close>, \<open>NaN\<close> and the empty string are falsy.
\<close>

fun number_truthy :: "number \<Rightarrow> bool" where
  "number_truthy NaN = False"
| "number_truthy (Finite r) = (r \<noteq> 0)"
| "number_truthy PosInf = True"
| "number_truthy NegInf = True"

fun truthy :: "json \<Rightarrow> bool" where
  "truthy JNull = False"
| "truthy (JBool b) = b"
| "truthy (JNum x) = number_truthy x"
| "truthy (JStr s) = (s \<noteq> [])"
| "truthy (JArr xs) = True"
| "truthy (JObj kvs) = True"

text \<open>
  The number for an integer: the nearest double, ties to the even significand. An integer
  of at most 53 bits is itself; a longer one is rounded at its 53rd bit; from
  \<open>2^1024 - 2^970\<close> on the result is infinite.
\<close>

function bit_length :: "int \<Rightarrow> nat" where
  "bit_length n = (if n \<le> 0 then 0 else Suc (bit_length (n div 2)))"
  by pat_completeness auto
termination
  by (relation "measure nat") auto

declare bit_length.simps [simp del]

definition round53 :: "int \<Rightarrow> int" where
  "round53 n =
     (let e = bit_length n
      in if e \<le> 53 then n
         else (let sh = e - 53;
                   q = n div 2 ^ sh;
                   r = n mod 2 ^ sh;
                   h = 2 ^ (sh - 1)
               in (if h < r \<or> (r = h \<and> odd q) then q + 1 else q) * 2 ^ sh))"

definition to_number :: "int \<Rightarrow> number" where
  "to_number n =
     (if 2 ^ 1024 - 2 ^ 970 \<le> \<bar>n\<bar> then (if n < 0 then NegInf else PosInf)
      else Finite (of_int (if n < 0 then - round53 (- n) else round53 n)))"

text \<open>
  \<open>parseInt(string)\<close> without a radix. Leading white space (JavaScript's white space
  and line terminators) is skipped, one sign is read, a \<open>0x\<close>/\<open>0X\<close> prefix selects
  radix 16, and the longest prefix of digits is the integer read; \<open>parse_integer\<close> is
  that integer with its sign, and \<open>None\<close> when there is no digit. \<open>parseInt\<close> returns
  the number for that integer, and \<open>NaN\<close> when there is none.
\<close>

definition is_space :: "nat \<Rightarrow> bool" where
  "is_space c =
     (c \<in> {9, 10, 11, 12, 13, 32, 160, 5760, 8232, 8233, 8239, 8287, 12288, 65279}
      \<or> (8192 \<le> c \<and> c \<le> 8202))"

definition digit_value :: "nat \<Rightarrow> int option" where
  "digit_value c =
     (if 48 \<le> c \<and> c \<le> 57 then Some (int c - 48)
      else if 97 \<le> c \<and> c \<le> 122 then Some (int c - 87)
      else if 65 \<le> c \<and> c \<le> 90 then Some (int c - 55)
      else None)"

definition radix_digit :: "int \<Rightarrow> nat \<Rightarrow> bool" where
  "radix_digit r c = (case digit_value c of Some d \<Rightarrow> d < r | None \<Rightarrow> False)"

definition digits_value :: "int \<Rightarrow> utf16 \<Rightarrow> int" where
  "digits_value r z = foldl (\<lambda>a c. a * r + (case digit_value c of Some d \<Rightarrow> d | None \<Rightarrow> 0)) 0 z"

definition parse_integer :: "utf16 \<Rightarrow> int option" where
  "parse_integer str =
     (let s = dropWhile is_space str;
          neg = (take 1 s = [45]);
          s1 = (if take 1 s = [43] \<or> take 1 s = [45] then drop 1 s else s);
          hex = (take 2 s1 = [48, 120] \<or> take 2 s1 = [48, 88]);
          r = (if hex then 16 else 10);
          s2 = (if hex then drop 2 s1 else s1);
          z = takeWhile (radix_digit r) s2
      in if z = [] then None
         else Some (if neg then - digits_value r z else digits_value r z))"

definition parseInt :: "utf16 \<Rightarrow> number" where
  "parseInt str = (case parse_integer str of None \<Rightarrow> NaN | Some n \<Rightarrow> to_number n)"

section \<open>The server: \<open>registerRoutes\<close>\<close>

text \<open>
  A thrown value. The handlers catch it and never look at it.
\<close>

datatype js_error = Error string

text \<open>
  A response: its status and the value a reader gets from its JSON body.
  \<open>res.json(v)\<close> sends \<open>JSON.stringify(v)\<close>.
\<close>

record response =
  status :: nat
  body :: json

text \<open>
  The object \<open>storage\<close> is imported from \<open>./storage\<close>, which is not among the sources:
  the handlers take it as a parameter. Each operation runs on the store's state and
  either returns a value or throws; a user id is the result of \<open>parseInt\<close>.
  \<open>getPortfolio\<close> may return \<open>undefined\<close> (\<open>None\<close>).
\<close>

record 'st storage =
  getPortfolio :: "number \<Rightarrow> 'st \<Rightarrow> (js_error + json option) \<times> 'st"
  getAllStocks :: "'st \<Rightarrow> (js_error + json) \<times> 'st"
  getTransactions :: "number \<Rightarrow> 'st \<Rightarrow> (js_error + json) \<times> 'st"
  createStock :: "json \<Rightarrow> 'st \<Rightarrow> (js_error + json) \<times> 'st"

text \<open>
  Each handler is a \<open>try\<close> block, which returns a response or throws, and a \<open>catch\<close>
  block, which answers 500 with the route's fixed message. \<open>res.json\<close> without
  \<open>res.status\<close> answers 200.
\<close>

definition catch_block :: "string \<Rightarrow> (js_error + response) \<times> 'st \<Rightarrow> response \<times> 'st" where
  "catch_block m r =
     (case r of
        (Inl error, st') \<Rightarrow> (\<lparr> status = 500, body = jsonify (JObj [(''message'', JStr m)]) \<rparr>, st')
      | (Inr res, st') \<Rightarrow> (res, st'))"

definition get_portfolio_try :: "'st storage \<Rightarrow> utf16 \<Rightarrow> 'st \<Rightarrow> (js_error + response) \<times> 'st" where
  "get_portfolio_try storage userId_param st =
     (let userId = parseInt userId_param
      in case getPortfolio storage userId st of
           (Inl error, st') \<Rightarrow> (Inl error, st')
         | (Inr portfolio, st') \<Rightarrow>
             (case portfolio of
                None \<Rightarrow>
                  (Inr \<lparr> status = 404,
                         body = jsonify (JObj [(''message'', JStr ''Portfolio not found'')]) \<rparr>, st')
              | Some p \<Rightarrow>
                  if \<not> truthy p
                  then (Inr \<lparr> status = 404,
                              body = jsonify (JObj [(''message'', JStr ''Portfolio not found'')]) \<rparr>,
                        st')
                  else (Inr \<lparr> status = 200, body = jsonify p \<rparr>, st')))"

definition get_portfolio :: "'st storage \<Rightarrow> utf16 \<Rightarrow> 'st \<Rightarrow> response \<times> 'st" where
  "get_portfolio storage userId_param st =
     catch_block ''Failed to fetch portfolio'' (get_portfolio_try storage userId_param st)"

definition get_stocks_try :: "'st storage \<Rightarrow> 'st \<Rightarrow> (js_error + response) \<times> 'st" where
  "get_stocks_try storage st =
     (case getAllStocks storage st of
        (Inl error, st') \<Rightarrow> (Inl error, st')
      | (Inr stocks, st') \<Rightarrow> (Inr \<lparr> status = 200, body = jsonify stocks \<rparr>, st'))"

definition get_stocks :: "'st storage \<Rightarrow> 'st \<Rightarrow> response \<times> 'st" where
  "get_stocks storage st = catch_block ''Failed to fetch stocks'' (get_stocks_try storage st)"

definition get_transactions_try :: "'st storage \<Rightarrow> utf16 \<Rightarrow> 'st \<Rightarrow> (js_error + response) \<times> 'st" where
  "get_transactions_try storage userId_param st =
     (let userId = parseInt userId_param
      in case getTransactions storage userId st of
           (Inl error, st') \<Rightarrow> (Inl error, st')
         | (Inr transactions, st') \<Rightarrow>
             (Inr \<lparr> status = 200, body = jsonify transactions \<rparr>, st'))"

definition get_transactions :: "'st storage \<Rightarrow> utf16 \<Rightarrow> 'st \<Rightarrow> response \<times> 'st" where
  "get_transactions storage userId_param st =
     catch_block ''Failed to fetch transactions'' (get_transactions_try storage userId_param st)"

text \<open>
  \<open>POST /api/stocks\<close>. The schema applied to the body is a parameter of the handler
  (any function from a body to issues or parsed data); the program passes
  \<open>insertStockSchema.safeParse\<close>.
\<close>

definition post_stocks_try ::
  "(json \<Rightarrow> json list + json) \<Rightarrow> 'st storage \<Rightarrow> json \<Rightarrow> 'st \<Rightarrow> (js_error + response) \<times> 'st" where
  "post_stocks_try schema storage req_body st =
     (case schema req_body of
        Inl errors \<Rightarrow>
          (Inr \<lparr> status = 400,
                 body = jsonify (JObj [(''message'', JStr ''Invalid stock data''),
                                       (''errors'', JArr errors)]) \<rparr>, st)
      | Inr data \<Rightarrow>
          (case createStock storage data st of
             (Inl error, st') \<Rightarrow> (Inl error, st')
           | (Inr stock, st') \<Rightarrow> (Inr \<lparr> status = 201, body = jsonify stock \<rparr>, st')))"

definition post_stocks ::
  "(json \<Rightarrow> json list + json) \<Rightarrow> 'st storage \<Rightarrow> json \<Rightarrow> 'st \<Rightarrow> response \<times> 'st" where
  "post_stocks schema storage req_body st =
     catch_block ''Failed to create stock'' (post_stocks_try schema storage req_body st)"

text \<open>The four routes that \<open>registerRoutes\<close> installs.\<close>

datatype request =
    GET_portfolio utf16
  | GET_stocks
  | GET_transactions utf16
  | POST_stocks json

fun route_try ::
  "(json \<Rightarrow> json list + json) \<Rightarrow> 'st storage \<Rightarrow> request \<Rightarrow> 'st \<Rightarrow> (js_error + response) \<times> 'st" where
  "route_try schema storage (GET_portfolio userId) st = get_portfolio_try storage userId st"
| "route_try schema storage GET_stocks st = get_stocks_try storage st"
| "route_try schema storage (GET_transactions userId) st = get_transactions_try storage userId st"
| "route_try schema storage (POST_stocks req_body) st = post_stocks_try schema storage req_body st"

fun registerRoutes ::
  "(json \<Rightarrow> json list + json) \<Rightarrow> 'st storage \<Rightarrow> request \<Rightarrow> 'st \<Rightarrow> response \<times> 'st" where
  "registerRoutes schema storage (GET_portfolio userId) st = get_portfolio storage userId st"
| "registerRoutes schema storage GET_stocks st = get_stocks storage st"
| "registerRoutes schema storage (GET_transactions userId) st = get_transactions storage userId st"
| "registerRoutes schema storage (POST_stocks req_body) st = post_stocks schema storage req_body st"

fun generic_message :: "request \<Rightarrow> string" where
  "generic_message (GET_portfolio userId) = ''Failed to fetch portfolio''"
| "generic_message GET_stocks = ''Failed to fetch stocks''"
| "generic_message (GET_transactions userId) = ''Failed to fetch transactions''"
| "generic_message (POST_stocks req_body) = ''Failed to create stock''"

text \<open>
  Modelled from the spec: the in-memory store behind \<open>storage\<close> (module \<open>./storage\<close> is
  not among the sources). The specification gives four operations: \<open>getPortfolio\<close>
  returns the user's portfolio or a not-found signal; \<open>getAllStocks\<close> returns all stocks
  in insertion order; \<open>getTransactions\<close> returns the user's transactions, possibly none;
  \<open>createStock\<close> returns the new record, with a server-assigned identifier, persisted
  before it returns. No uniqueness of symbols is enforced.
\<close>

record mem =
  portfolios :: "(number \<times> json) list"
  stocks :: "json list"
  transactions :: "(number \<times> json) list"
  currentId :: nat

definition mem_getPortfolio :: "number \<Rightarrow> mem \<Rightarrow> (js_error + json option) \<times> mem" where
  "mem_getPortfolio userId st =
     (Inr (case filter (\<lambda>(u, p). strict_eq u userId) (portfolios st) of
             [] \<Rightarrow> None
           | (u, p) # rest \<Rightarrow> Some p), st)"

definition mem_getAllStocks :: "mem \<Rightarrow> (js_error + json) \<times> mem" where
  "mem_getAllStocks st = (Inr (JArr (stocks st)), st)"

definition mem_getTransactions :: "number \<Rightarrow> mem \<Rightarrow> (js_error + json) \<times> mem" where
  "mem_getTransactions userId st =
     (Inr (JArr (map snd (filter (\<lambda>(u, t). strict_eq u userId) (transactions st)))), st)"

definition with_id :: "nat \<Rightarrow> json \<Rightarrow> json" where
  "with_id n data =
     (case data of
        JObj kvs \<Rightarrow> JObj (filter (\<lambda>(k, v). k \<noteq> ''id'') kvs @ [(''id'', JNum (Finite (of_nat n)))])
      | _ \<Rightarrow> data)"

definition mem_createStock :: "json \<Rightarrow> mem \<Rightarrow> (js_error + json) \<times> mem" where
  "mem_createStock data st =
     (let stock = with_id (currentId st) data
      in (Inr stock, st \<lparr> stocks := stocks st @ [stock], currentId := currentId st + 1 \<rparr>))"

definition mem_storage :: "mem storage" where
  "mem_storage =
     \<lparr> getPortfolio = mem_getPortfolio, getAllStocks = mem_getAllStocks,
       getTransactions = mem_getTransactions, createStock = mem_createStock \<rparr>"

definition empty_mem :: mem where
  "empty_mem = \<lparr> portfolios = [], stocks = [], transactions = [], currentId = 1 \<rparr>"

text \<open>Reading a property of a value: \<open>v[k]\<close>.\<close>

definition field :: "json \<Rightarrow> string \<Rightarrow> json option" where
  "field v k = (case v of JObj kvs \<Rightarrow> map_of kvs k | _ \<Rightarrow> None)"

section \<open>The client: \<open>AddStockModal\<close>\<close>

text \<open>
  The values held by the form. The volume is a number: every change of the volume input
  stores a result of \<open>parseInt\<close> or 0 (see \<open>volume_onChange\<close>), and the default is 0.
\<close>

record form_values =
  symbol :: string
  name :: string
  price :: string
  change :: string
  changePercent :: string
  volume :: number
  marketCap :: string

definition form_json :: "form_values \<Rightarrow> json" where
  "form_json v =
     JObj [ (''symbol'', JStr (symbol v)),
            (''name'', JStr (name v)),
            (''price'', JStr (price v)),
            (''change'', JStr (change v)),
            (''changePercent'', JStr (changePercent v)),
            (''volume'', JNum (volume v)),
            (''marketCap'', JStr (marketCap v)) ]"

record toast =
  title :: string
  description :: string
  variant :: "string option"

text \<open>
  A call of \<open>apiRequest\<close>. The body is what the server reads from the text that
  \<open>JSON.stringify\<close> writes.
\<close>

record api_call =
  url :: string
  http_method :: string
  call_body :: json
  headers :: "(string \<times> string) list"

text \<open>
  What the component owns or can reach: the dialog's \<open>open\<close> flag, the form (values and
  validation errors), the toasts shown, the query keys invalidated in the query client,
  the requests issued, and the mutation's \<open>isPending\<close> flag.
\<close>

record client =
  is_open :: bool
  form :: form_values
  form_errors :: "json list"
  toasts :: "toast list"
  invalidated :: "string list list"
  calls :: "api_call list"
  isPending :: bool

definition defaultValues :: form_values where
  "defaultValues =
     \<lparr> symbol = [], name = [], price = [], change = [], changePercent = [],
       volume = Finite 0, marketCap = [] \<rparr>"

definition mutationFn :: "json \<Rightarrow> api_call" where
  "mutationFn data =
     \<lparr> url = ''/api/stocks'', http_method = ''POST'', call_body = jsonify data,
       headers = [(''Content-Type'', ''application/json'')] \<rparr>"

definition onSuccess :: "client \<Rightarrow> client" where
  "onSuccess c =
     c \<lparr> invalidated := invalidated c @ [[''/api/stocks'']],
         toasts := toasts c @ [\<lparr> title = ''Success'',
                                 description = ''Stock added to watchlist successfully!'',
                                 variant = None \<rparr>],
         form := defaultValues,
         form_errors := [],
         is_open := False \<rparr>"

definition onError :: "client \<Rightarrow> client" where
  "onError c =
     c \<lparr> toasts := toasts c @ [\<lparr> title = ''Error'',
                                 description = ''Failed to add stock to watchlist. Please try again.'',
                                 variant = Some ''destructive'' \<rparr>] \<rparr>"

text \<open>
  \<open>createStockMutation.mutate(data)\<close> runs \<open>mutationFn\<close> once (the mutation sets no
  \<open>retry\<close> option) and the mutation is pending until the request settles.
\<close>

definition mutate :: "json \<Rightarrow> client \<Rightarrow> client" where
  "mutate data c = c \<lparr> calls := calls c @ [mutationFn data], isPending := True \<rparr>"

definition onSubmit :: "json \<Rightarrow> client \<Rightarrow> client" where
  "onSubmit data c = mutate data c"

text \<open>
  \<open>form.handleSubmit(onSubmit)\<close> with \<open>zodResolver(formSchema)\<close>: the resolver parses
  the form's values; with issues they become the form's errors (kept here as the list
  of issues) and \<open>onSubmit\<close> is not called, without issues \<open>onSubmit\<close> receives the
  parsed data.
\<close>

definition handleSubmit :: "client \<Rightarrow> client" where
  "handleSubmit c =
     (case safeParse formSchema (form_json (form c)) of
        Inl issues \<Rightarrow> c \<lparr> form_errors := issues \<rparr>
      | Inr data \<Rightarrow> onSubmit data (c \<lparr> form_errors := [] \<rparr>))"

text \<open>What the network gives back for a request.\<close>

datatype fetch_result = NetworkError | HttpResponse nat json

text \<open>
  Modelled from the spec: \<open>apiRequest\<close>, exported by the module \<open>@/lib/queryClient\<close>,
  which is not among the sources. The specification's submission flow has the request
  succeed when the server responds 2xx and fail on any non-2xx response or network error.
\<close>

definition apiRequest :: "fetch_result \<Rightarrow> js_error + json" where
  "apiRequest r =
     (case r of
        NetworkError \<Rightarrow> Inl (Error ''network error'')
      | HttpResponse s b \<Rightarrow>
          if 200 \<le> s \<and> s < 300 then Inr b else Inl (Error ''response not ok''))"

text \<open>The mutation settles: \<open>onSuccess\<close> when \<open>mutationFn\<close> resolved, \<open>onError\<close> when it threw.\<close>

definition settled :: "fetch_result \<Rightarrow> client \<Rightarrow> client" where
  "settled r c =
     (case apiRequest r of
        Inl error \<Rightarrow> onError (c \<lparr> isPending := False \<rparr>)
      | Inr res \<Rightarrow> onSuccess (c \<lparr> isPending := False \<rparr>))"

text \<open>
  The \<open>onChange\<close> handlers of the symbol and volume inputs. \<open>toUpperCase\<close> is the
  built-in method of strings; its case mapping is not modelled and the handler takes it as
  a parameter. \<open>x || y\<close> is \<open>x\<close> when \<open>x\<close> is truthy and \<open>y\<close> otherwise.
\<close>

definition symbol_onChange :: "('t \<Rightarrow> string) \<Rightarrow> 't \<Rightarrow> client \<Rightarrow> client" where
  "symbol_onChange toUpperCase text c = c \<lparr> form := (form c) \<lparr> symbol := toUpperCase text \<rparr> \<rparr>"

definition or_number :: "number \<Rightarrow> number \<Rightarrow> number" where
  "or_number a b = (if number_truthy a then a else b)"

definition volume_onChange :: "utf16 \<Rightarrow> client \<Rightarrow> client" where
  "volume_onChange text c =
     c \<lparr> form := (form c) \<lparr> volume := or_number (parseInt text) (Finite 0) \<rparr> \<rparr>"

subsection \<open>The second copy of the component in \<open>add-stock-modal.tsx\<close>\<close>

definition formSchema_2 :: zod_object where
  "formSchema_2 = extend_zod insertStockSchema
     [ (''symbol'', ZodString [Min 1 (Some ''Symbol is required''),
                               Max 5 (Some ''Symbol must be 5 characters or less'')]),
       (''name'', ZodString [Min 1 (Some ''Company name is required'')]),
       (''price'', ZodString [Min 1 (Some ''Price is required'')]),
       (''change'', ZodString [Min 1 (Some ''Change is required'')]),
       (''changePercent'', ZodString [Min 1 (Some ''Change percent is required'')]),
       (''volume'', ZodNumber [Min 0 (Some ''Volume must be positive'')]),
       (''marketCap'', ZodString [Min 1 (Some ''Market cap is required'')]) ]"

definition defaultValues_2 :: form_values where
  "defaultValues_2 =
     \<lparr> symbol = [], name = [], price = [], change = [], changePercent = [],
       volume = Finite 0, marketCap = [] \<rparr>"

definition mutationFn_2 :: "json \<Rightarrow> api_call" where
  "mutationFn_2 data =
     \<lparr> url = ''/api/stocks'', http_method = ''POST'', call_body = jsonify data,
       headers = [(''Content-Type'', ''application/json'')] \<rparr>"

definition onSuccess_2 :: "client \<Rightarrow> client" where
  "onSuccess_2 c =
     c \<lparr> invalidated := invalidated c @ [[''/api/stocks'']],
         toasts := toasts c @ [\<lparr> title = ''Success'',
                                 description = ''Stock added to watchlist successfully!'',
                                 variant = None \<rparr>],
         form := defaultValues_2,
         form_errors := [],
         is_open := False \<rparr>"

definition onError_2 :: "client \<Rightarrow> client" where
  "onError_2 c =
     c \<lparr> toasts := toasts c @ [\<lparr> title = ''Error'',
                                 description = ''Failed to add stock to watchlist. Please try again.'',
                                 variant = Some ''destructive'' \<rparr>] \<rparr>"

definition mutate_2 :: "json \<Rightarrow> client \<Rightarrow> client" where
  "mutate_2 data c = c \<lparr> calls := calls c @ [mutationFn_2 data], isPending := True \<rparr>"

definition onSubmit_2 :: "json \<Rightarrow> client \<Rightarrow> client" where
  "onSubmit_2 data c = mutate_2 data c"

definition handleSubmit_2 :: "client \<Rightarrow> client" where
  "handleSubmit_2 c =
     (case safeParse formSchema_2 (form_json (form c)) of
        Inl issues \<Rightarrow> c \<lparr> form_errors := issues \<rparr>
      | Inr data \<Rightarrow> onSubmit_2 data (c \<lparr> form_errors := [] \<rparr>))"

definition settled_2 :: "fetch_result \<Rightarrow> client \<Rightarrow> client" where
  "settled_2 r c =
     (case apiRequest r of
        Inl error \<Rightarrow> onError_2 (c \<lparr> isPending := False \<rparr>)
      | Inr res \<Rightarrow> onSuccess_2 (c \<lparr> isPending := False \<rparr>))"

definition symbol_onChange_2 :: "('t \<Rightarrow> string) \<Rightarrow> 't \<Rightarrow> client \<Rightarrow> client" where
  "symbol_onChange_2 toUpperCase text c = c \<lparr> form := (form c) \<lparr> symbol := toUpperCase text \<rparr> \<rparr>"

definition volume_onChange_2 :: "utf16 \<Rightarrow> client \<Rightarrow> client" where
  "volume_onChange_2 text c =
     c \<lparr> form := (form c) \<lparr> volume := or_number (parseInt text) (Finite 0) \<rparr> \<rparr>"

section \<open>The specification's vocabulary\<close>

text \<open>
  A valid creation payload, in the specification's words: symbol of length 1 to 5, every
  other string field non-empty, volume at least 0.
\<close>

fun string_field :: "(nat \<Rightarrow> bool) \<Rightarrow> json option \<Rightarrow> bool" where
  "string_field P (Some (JStr s)) = P (length s)"
| "string_field P v = False"

text \<open>\<open>x >= 0\<close> for a number.\<close>

fun nonneg :: "number \<Rightarrow> bool" where
  "nonneg NaN = False"
| "nonneg (Finite r) = (0 \<le> r)"
| "nonneg PosInf = True"
| "nonneg NegInf = False"

fun is_finite :: "number \<Rightarrow> bool" where
  "is_finite (Finite r) = True"
| "is_finite x = False"

fun number_field :: "(number \<Rightarrow> bool) \<Rightarrow> json option \<Rightarrow> bool" where
  "number_field P (Some (JNum x)) = P x"
| "number_field P v = False"

definition valid_payload :: "json \<Rightarrow> bool" where
  "valid_payload p =
     (string_field (\<lambda>n. 1 \<le> n \<and> n \<le> 5) (field p ''symbol'') \<and>
      string_field (\<lambda>n. 1 \<le> n) (field p ''name'') \<and>
      string_field (\<lambda>n. 1 \<le> n) (field p ''price'') \<and>
      string_field (\<lambda>n. 1 \<le> n) (field p ''change'') \<and>
      string_field (\<lambda>n. 1 \<le> n) (field p ''changePercent'') \<and>
      number_field nonneg (field p ''volume'') \<and>
      string_field (\<lambda>n. 1 \<le> n) (field p ''marketCap''))"

definition creation_fields :: "string list" where
  "creation_fields =
     [''symbol'', ''name'', ''price'', ''change'', ''changePercent'', ''volume'', ''marketCap'']"

definition string_fields :: "string list" where
  "string_fields = [''symbol'', ''name'', ''price'', ''change'', ''changePercent'', ''marketCap'']"

text \<open>A submission fails on a network error or a response that is not 2xx.\<close>

fun failure :: "fetch_result \<Rightarrow> bool" where
  "failure NetworkError = True"
| "failure (HttpResponse s b) = (\<not> (200 \<le> s \<and> s < 300))"

section \<open>Sample data\<close>

text \<open>The creation payload of the specification's scenario, and the same with an empty symbol.\<close>

definition apple_payload :: json where
  "apple_payload =
     JObj [ (''symbol'', JStr ''AAPL''),
            (''name'', JStr ''Apple Inc.''),
            (''price'', JStr ''173.50''),
            (''change'', JStr ''4.12''),
            (''changePercent'', JStr ''2.4''),
            (''volume'', JNum (Finite 45200000)),
            (''marketCap'', JStr ''$2.7T'') ]"

definition no_symbol_payload :: json where
  "no_symbol_payload =
     JObj [ (''symbol'', JStr []),
            (''name'', JStr ''Apple Inc.''),
            (''price'', JStr ''173.50''),
            (''change'', JStr ''4.12''),
            (''changePercent'', JStr ''2.4''),
            (''volume'', JNum (Finite 45200000)),
            (''marketCap'', JStr ''$2.7T'') ]"

text \<open>A payload whose volume is \<open>Infinity\<close>, as read from the JSON number \<open>1e400\<close>.\<close>

definition infinite_payload :: json where
  "infinite_payload =
     JObj [ (''symbol'', JStr ''AAPL''),
            (''name'', JStr ''Apple Inc.''),
            (''price'', JStr ''173.50''),
            (''change'', JStr ''4.12''),
            (''changePercent'', JStr ''2.4''),
            (''volume'', JNum PosInf),
            (''marketCap'', JStr ''$2.7T'') ]"


definition apple_form :: form_values where
  "apple_form =
     \<lparr> symbol = ''AAPL'', name = ''Apple Inc.'', price = ''173.50'', change = ''4.12'',
       changePercent = ''2.4'', volume = Finite 45200000, marketCap = ''$2.7T'' \<rparr>"

definition apple_client :: client where
  "apple_client =
     \<lparr> is_open = True, form = apple_form, form_errors = [], toasts = [], invalidated = [],
       calls = [], isPending = False \<rparr>"

text \<open>A store every operation of which throws the given error.\<close>

definition throwing_storage :: "string \<Rightarrow> mem storage" where
  "throwing_storage m =
     \<lparr> getPortfolio = (\<lambda>userId st. (Inl (Error m), st)),
       getAllStocks = (\<lambda>st. (Inl (Error m), st)),
       getTransactions = (\<lambda>userId st. (Inl (Error m), st)),
       createStock = (\<lambda>data st. (Inl (Error m), st)) \<rparr>"

section \<open>Numbers for integers\<close>

lemma bit_length_le: "n < 2 ^ k \<Longrightarrow> bit_length n \<le> k"
proof (induction k arbitrary: n)
  case 0
  then show ?case by (simp add: bit_length.simps[of n])
next
  case (Suc k)
  show ?case
  proof (cases "n \<le> 0")
    case True
    then show ?thesis by (simp add: bit_length.simps[of n])
  next
    case False
    from Suc.prems have "n div 2 < 2 ^ k" by simp
    then have "bit_length (n div 2) \<le> k" by (rule Suc.IH)
    with False show ?thesis by (simp add: bit_length.simps[of n])
  qed
qed

lemma to_number_exact:
  assumes "\<bar>n\<bar> < 2 ^ 53"
  shows "to_number n = Finite (of_int n)"
proof -
  have a: "\<not> (2 ^ 1024 - 2 ^ 970 \<le> \<bar>n\<bar>)"
    using assms by simp
  have b: "round53 \<bar>n\<bar> = \<bar>n\<bar>"
    using bit_length_le[of "\<bar>n\<bar>" 53] assms by (simp add: round53_def)
  show ?thesis
  proof (cases "n < 0")
    case True
    then have "round53 (- n) = - n" using b by simp
    with a True show ?thesis by (simp add: to_number_def)
  next
    case False
    then have "round53 n = n" using b by simp
    with a False show ?thesis by (simp add: to_number_def)
  qed
qed


lemma parse_integer_42: "parse_integer (code_units ''42'') = Some 42"
  by (simp add: parse_integer_def code_units_def is_space_def radix_digit_def digit_value_def
      digits_value_def)

lemma parseInt_42: "parseInt (code_units ''42'') = Finite 42"
  by (simp add: parseInt_def parse_integer_42 to_number_exact)

lemma parse_integer_2_53_1:
  "parse_integer (code_units ''9007199254740993'') = Some 9007199254740993"
  by (simp add: parse_integer_def code_units_def is_space_def radix_digit_def digit_value_def
      digits_value_def)

lemma bit_length_2_53_1: "bit_length 9007199254740993 = 54"
  by code_simp

lemma parseInt_2_53_1: "parseInt (code_units ''9007199254740993'') = Finite 9007199254740992"
  by (simp add: parseInt_def parse_integer_2_53_1 to_number_def round53_def bit_length_2_53_1)




section \<open>What the two schemas accept\<close>

lemma formSchema_shape:
  "formSchema =
     [ (''symbol'', ZodString [Min 1 (Some ''Symbol is required''),
                               Max 5 (Some ''Symbol must be 5 characters or less'')]),
       (''name'', ZodString [Min 1 (Some ''Company name is required'')]),
       (''price'', ZodString [Min 1 (Some ''Price is required'')]),
       (''change'', ZodString [Min 1 (Some ''Change is required'')]),
       (''changePercent'', ZodString [Min 1 (Some ''Change percent is required'')]),
       (''volume'', ZodNumber [Min 0 (Some ''Volume must be positive'')]),
       (''marketCap'', ZodString [Min 1 (Some ''Market cap is required'')]) ]"
  by (simp add: formSchema_def extend_zod_def insertStockSchema_def)

lemma string_min_ok:
  "parse_type p (ZodString [Min 1 m]) v = [] \<longleftrightarrow> string_field (\<lambda>n. 1 \<le> n) v"
  by (cases "(p, ZodString [Min 1 m], v)" rule: parse_type.cases) (auto simp: Suc_le_eq)

lemma string_min_max_ok:
  "parse_type p (ZodString [Min 1 m, Max 5 m']) v = []
     \<longleftrightarrow> string_field (\<lambda>n. 1 \<le> n \<and> n \<le> 5) v"
  by (cases "(p, ZodString [Min 1 m, Max 5 m'], v)" rule: parse_type.cases)
     (auto simp: Suc_le_eq)

lemma number_min_ok:
  "parse_type p (ZodNumber [Min 0 m]) v = [] \<longleftrightarrow> number_field nonneg v"
proof (cases v)
  case None
  then show ?thesis by simp
next
  case (Some j)
  show ?thesis
  proof (cases j)
    case (JNum x)
    with Some show ?thesis by (cases x) simp_all
  qed (simp_all add: Some)
qed

lemma formSchema_issues:
  "object_issues formSchema kvs = [] \<longleftrightarrow> valid_payload (JObj kvs)"
  by (simp add: formSchema_shape object_issues_def valid_payload_def field_def
      string_min_ok string_min_max_ok number_min_ok)

lemma insertStockSchema_issues:
  "object_issues insertStockSchema kvs = [] \<longleftrightarrow> valid_payload (JObj kvs)"
  by (simp add: insertStockSchema_def object_issues_def valid_payload_def field_def
      string_min_ok string_min_max_ok number_min_ok)

lemma strip_same_keys: "strip formSchema kvs = strip insertStockSchema kvs"
  by (simp add: formSchema_shape insertStockSchema_def strip_def List.map_filter_def)

lemma valid_payload_object: "valid_payload p \<Longrightarrow> \<exists>kvs. p = JObj kvs"
  by (cases p) (simp_all add: valid_payload_def field_def)

lemma safeParse_formSchema:
  "safeParse formSchema p =
     (if valid_payload p
      then Inr (JObj (strip insertStockSchema (case p of JObj kvs \<Rightarrow> kvs | _ \<Rightarrow> [])))
      else Inl (case p of JObj kvs \<Rightarrow> object_issues formSchema kvs
                | _ \<Rightarrow> [invalid_type_issue [] ''object'' (Some p)]))"
  by (cases p)
     (simp_all add: safeParse_def formSchema_issues strip_same_keys valid_payload_def field_def)

lemma safeParse_insertStockSchema:
  "safeParse insertStockSchema p =
     (if valid_payload p
      then Inr (JObj (strip insertStockSchema (case p of JObj kvs \<Rightarrow> kvs | _ \<Rightarrow> [])))
      else Inl (case p of JObj kvs \<Rightarrow> object_issues insertStockSchema kvs
                | _ \<Rightarrow> [invalid_type_issue [] ''object'' (Some p)]))"
  by (cases p)
     (simp_all add: safeParse_def insertStockSchema_issues valid_payload_def field_def)

lemma string_fieldD: "string_field P v \<Longrightarrow> \<exists>s. v = Some (JStr s) \<and> P (length s)"
  by (cases "(P, v)" rule: string_field.cases) simp_all

lemma number_fieldD: "number_field P v \<Longrightarrow> \<exists>x. v = Some (JNum x) \<and> P x"
  by (cases "(P, v)" rule: number_field.cases) simp_all

lemma valid_apple_payload: "valid_payload apple_payload"
  by (simp add: valid_payload_def apple_payload_def field_def)

lemma valid_infinite_payload: "valid_payload infinite_payload"
  by (simp add: valid_payload_def infinite_payload_def field_def)

lemma strip_form_json:
  "strip insertStockSchema (case form_json v of JObj kvs \<Rightarrow> kvs | _ \<Rightarrow> [])
     = (case form_json v of JObj kvs \<Rightarrow> kvs | _ \<Rightarrow> [])"
  by (simp add: form_json_def strip_def insertStockSchema_def List.map_filter_def)

lemma handleSubmit_eq:
  "handleSubmit c =
     (if valid_payload (form_json (form c))
      then c \<lparr> form_errors := [], calls := calls c @ [mutationFn (form_json (form c))],
               isPending := True \<rparr>
      else c \<lparr> form_errors := (case form_json (form c) of JObj kvs \<Rightarrow> object_issues formSchema kvs
                                | _ \<Rightarrow> []) \<rparr>)"
  using strip_form_json[of "form c"]
  by (simp add: handleSubmit_def safeParse_formSchema onSubmit_def mutate_def form_json_def)

lemma show_int_1: "show_int 1 = ''1''"
  by code_simp

lemma no_symbol_payload_issues:
  "safeParse insertStockSchema no_symbol_payload
     = Inl [JObj [ (''code'', JStr ''too_small''),
                   (''minimum'', JNum (Finite 1)),
                   (''type'', JStr ''string''),
                   (''inclusive'', JBool True),
                   (''exact'', JBool False),
                   (''message'', JStr ''String must contain at least 1 character(s)''),
                   (''path'', JArr [JStr ''symbol'']) ]]"
  by (simp add: safeParse_def no_symbol_payload_def insertStockSchema_def object_issues_def
      too_small_issue_def show_int_1)

lemma apple_payload_parsed: "safeParse insertStockSchema apple_payload = Inr apple_payload"
  by (simp add: safeParse_def apple_payload_def insertStockSchema_def object_issues_def
      strip_def List.map_filter_def)

lemma infinite_payload_parsed: "safeParse insertStockSchema infinite_payload = Inr infinite_payload"
  by (simp add: safeParse_def infinite_payload_def insertStockSchema_def object_issues_def
      strip_def List.map_filter_def)

section \<open>Issues are written to JSON as they are\<close>

lemma jsonify_strings: "map jsonify (map JStr p) = map JStr p"
  by (induction p) simp_all

lemma jsonify_invalid_type_issue:
  "jsonify (invalid_type_issue p e v) = invalid_type_issue p e v"
  by (simp add: invalid_type_issue_def jsonify_strings)

lemma jsonify_too_small_issue: "jsonify (too_small_issue p ty n m) = too_small_issue p ty n m"
  by (simp add: too_small_issue_def jsonify_strings)

lemma jsonify_too_big_issue: "jsonify (too_big_issue p ty n m) = too_big_issue p ty n m"
  by (simp add: too_big_issue_def jsonify_strings)

lemma issue_keys_invalid_type:
  "field (invalid_type_issue p e v) ''code'' = Some (JStr ''invalid_type'')
   \<and> field (invalid_type_issue p e v) ''path'' = Some (JArr (map JStr p))
   \<and> (\<exists>m. field (invalid_type_issue p e v) ''message'' = Some (JStr m))"
  by (simp add: invalid_type_issue_def field_def)

lemma issue_keys_too_small:
  "field (too_small_issue p ty n m) ''code'' = Some (JStr ''too_small'')
   \<and> field (too_small_issue p ty n m) ''path'' = Some (JArr (map JStr p))
   \<and> field (too_small_issue p ty n m) ''message'' = Some (JStr m)"
  by (simp add: too_small_issue_def field_def)

lemma issue_keys_too_big:
  "field (too_big_issue p ty n m) ''code'' = Some (JStr ''too_big'')
   \<and> field (too_big_issue p ty n m) ''path'' = Some (JArr (map JStr p))
   \<and> field (too_big_issue p ty n m) ''message'' = Some (JStr m)"
  by (simp add: too_big_issue_def field_def)

text \<open>An issue is one of the three kinds of object.\<close>

lemma check_string_kinds:
  "e \<in> set (check_string p s c) \<Longrightarrow>
     (\<exists>ty n m. e = too_small_issue p ty n m) \<or> (\<exists>ty n m. e = too_big_issue p ty n m)"
  by (cases c) (simp_all split: if_splits, metis+)

lemma check_number_kinds:
  "e \<in> set (check_number p x c) \<Longrightarrow>
     (\<exists>ty n m. e = too_small_issue p ty n m) \<or> (\<exists>ty n m. e = too_big_issue p ty n m)"
  by (cases c) (simp_all split: if_splits, metis+)

lemma parse_type_kinds:
  assumes "e \<in> set (parse_type p t v)"
  shows "(\<exists>ex. e = invalid_type_issue p ex v)
         \<or> (\<exists>ty n m. e = too_small_issue p ty n m)
         \<or> (\<exists>ty n m. e = too_big_issue p ty n m)"
proof -
  have "(\<exists>ex. e = invalid_type_issue p ex v)
        \<or> (\<exists>s c. e \<in> set (check_string p s c))
        \<or> (\<exists>x c. e \<in> set (check_number p x c))"
    using assms
    by (cases "(p, t, v)" rule: parse_type.cases) (auto split: if_splits)
  then show ?thesis
    using check_string_kinds check_number_kinds by blast
qed

lemma object_issue_kinds:
  assumes "e \<in> set (object_issues shape kvs)"
  shows "\<exists>p. (\<exists>ex v. e = invalid_type_issue p ex v)
            \<or> (\<exists>ty n m. e = too_small_issue p ty n m)
            \<or> (\<exists>ty n m. e = too_big_issue p ty n m)"
proof -
  from assms obtain k t where "e \<in> set (parse_type [k] t (map_of kvs k))"
    by (auto simp: object_issues_def)
  from parse_type_kinds[OF this] show ?thesis by blast
qed

lemma safeParse_issue_kinds:
  assumes "safeParse shape input = Inl errors" and "e \<in> set errors"
  shows "\<exists>p. (\<exists>ex v. e = invalid_type_issue p ex v)
            \<or> (\<exists>ty n m. e = too_small_issue p ty n m)
            \<or> (\<exists>ty n m. e = too_big_issue p ty n m)"
proof -
  have "(\<exists>kvs. e \<in> set (object_issues shape kvs))
        \<or> e = invalid_type_issue [] ''object'' (Some input)"
    using assms by (cases input) (auto simp: safeParse_def Let_def split: if_splits)
  then show ?thesis
    using object_issue_kinds by blast
qed

lemma safeParse_issue_jsonify:
  assumes "safeParse shape input = Inl errors"
  shows "map jsonify errors = errors"
proof (rule map_idI)
  fix e assume "e \<in> set errors"
  from safeParse_issue_kinds[OF assms this] show "jsonify e = e"
    by (auto simp: jsonify_invalid_type_issue jsonify_too_small_issue jsonify_too_big_issue)
qed

lemma safeParse_issue_structured:
  assumes "safeParse shape input = Inl errors" and "e \<in> set errors"
  shows "\<exists>c p m. field e ''code'' = Some (JStr c)
               \<and> field e ''path'' = Some (JArr (map JStr p))
               \<and> field e ''message'' = Some (JStr m)"
  using safeParse_issue_kinds[OF assms] issue_keys_invalid_type issue_keys_too_small
    issue_keys_too_big
  by metis

section \<open>Client and server validation\<close>

text \<open>
  Claim C1. The client's validator (\<open>formSchema\<close>, which gates the form's submission)
  and the server's validator (\<open>insertStockSchema\<close>, applied to the body of
  \<open>POST /api/stocks\<close>) agree on every payload: both reject it, or both accept it, and
  then with the same parsed data.
\<close>

theorem validators_agree:
  "isl (safeParse formSchema payload) = isl (safeParse insertStockSchema payload) \<and>
   (safeParse formSchema payload = Inr data) = (safeParse insertStockSchema payload = Inr data)"
  by (simp add: safeParse_formSchema safeParse_insertStockSchema)

section \<open>Creating a stock\<close>

lemma created_record:
  assumes "valid_payload (JObj kvs)"
  shows "\<exists>s1 s2 s3 s4 s5 x s7.
           map_of kvs ''symbol'' = Some (JStr s1) \<and> map_of kvs ''name'' = Some (JStr s2)
         \<and> map_of kvs ''price'' = Some (JStr s3) \<and> map_of kvs ''change'' = Some (JStr s4)
         \<and> map_of kvs ''changePercent'' = Some (JStr s5) \<and> map_of kvs ''volume'' = Some (JNum x)
         \<and> map_of kvs ''marketCap'' = Some (JStr s7)
         \<and> jsonify (with_id n (JObj (strip insertStockSchema kvs)))
             = JObj [ (''symbol'', JStr s1), (''name'', JStr s2), (''price'', JStr s3),
                      (''change'', JStr s4), (''changePercent'', JStr s5),
                      (''volume'', jsonify (JNum x)), (''marketCap'', JStr s7),
                      (''id'', JNum (Finite (of_nat n))) ]"
proof -
  from assms obtain s1 s2 s3 s4 s5 x s7 where
    "map_of kvs ''symbol'' = Some (JStr s1)" "map_of kvs ''name'' = Some (JStr s2)"
    "map_of kvs ''price'' = Some (JStr s3)" "map_of kvs ''change'' = Some (JStr s4)"
    "map_of kvs ''changePercent'' = Some (JStr s5)" "map_of kvs ''volume'' = Some (JNum x)"
    "map_of kvs ''marketCap'' = Some (JStr s7)"
    unfolding valid_payload_def field_def
    by (auto dest!: string_fieldD number_fieldD)
  then show ?thesis
    by (simp add: with_id_def strip_def insertStockSchema_def List.map_filter_def)
qed

text \<open>
  Claim C2, as amended. For every valid creation payload (symbol of length 1 to 5, all
  string fields non-empty, volume at least 0), \<open>POST /api/stocks\<close> answers 201 with the
  record that the store has appended, and each string field of the returned record equals
  the field submitted. The returned volume equals the submitted one when that is finite;
  a volume of \<open>Infinity\<close> is accepted as well and is returned as \<open>null\<close>.
\<close>

theorem create_valid_payload:
  assumes "valid_payload payload"
  shows "\<exists>stock. post_stocks (safeParse insertStockSchema) mem_storage payload st
           = (\<lparr> status = 201, body = jsonify stock \<rparr>,
              st \<lparr> stocks := stocks st @ [stock], currentId := currentId st + 1 \<rparr>)
         \<and> (\<forall>k \<in> set string_fields. field (jsonify stock) k = field payload k)
         \<and> (number_field is_finite (field payload ''volume'') \<longrightarrow>
              field (jsonify stock) ''volume'' = field payload ''volume'')
         \<and> (field payload ''volume'' = Some (JNum PosInf) \<longrightarrow>
              field (jsonify stock) ''volume'' = Some JNull)"
proof -
  from assms obtain kvs where p: "payload = JObj kvs"
    using valid_payload_object by blast
  define stock where "stock = with_id (currentId st) (JObj (strip insertStockSchema kvs))"
  from created_record[of kvs "currentId st"] assms p obtain s1 s2 s3 s4 s5 x s7 where
    m: "map_of kvs ''symbol'' = Some (JStr s1)" "map_of kvs ''name'' = Some (JStr s2)"
       "map_of kvs ''price'' = Some (JStr s3)" "map_of kvs ''change'' = Some (JStr s4)"
       "map_of kvs ''changePercent'' = Some (JStr s5)" "map_of kvs ''volume'' = Some (JNum x)"
       "map_of kvs ''marketCap'' = Some (JStr s7)"
    and j: "jsonify stock
             = JObj [ (''symbol'', JStr s1), (''name'', JStr s2), (''price'', JStr s3),
                      (''change'', JStr s4), (''changePercent'', JStr s5),
                      (''volume'', jsonify (JNum x)), (''marketCap'', JStr s7),
                      (''id'', JNum (Finite (of_nat (currentId st)))) ]"
    unfolding stock_def by blast
  have a: "post_stocks (safeParse insertStockSchema) mem_storage payload st
           = (\<lparr> status = 201, body = jsonify stock \<rparr>,
              st \<lparr> stocks := stocks st @ [stock], currentId := currentId st + 1 \<rparr>)"
    using assms p
    by (simp add: post_stocks_def post_stocks_try_def catch_block_def stock_def
        safeParse_insertStockSchema mem_storage_def mem_createStock_def Let_def)
  have b: "\<forall>k \<in> set string_fields. field (jsonify stock) k = field payload k"
    by (simp add: string_fields_def j p m field_def)
  have c: "number_field is_finite (field payload ''volume'') \<longrightarrow>
             field (jsonify stock) ''volume'' = field payload ''volume''"
    by (cases x) (simp_all add: j p m field_def)
  have d: "field payload ''volume'' = Some (JNum PosInf) \<longrightarrow>
             field (jsonify stock) ''volume'' = Some JNull"
    by (auto simp: j p m field_def)
  from a b c d show ?thesis by blast
qed

lemma post_apple_payload:
  "post_stocks (safeParse insertStockSchema) mem_storage apple_payload empty_mem
     = (\<lparr> status = 201,
          body = JObj [ (''symbol'', JStr ''AAPL''),
                        (''name'', JStr ''Apple Inc.''),
                        (''price'', JStr ''173.50''),
                        (''change'', JStr ''4.12''),
                        (''changePercent'', JStr ''2.4''),
                        (''volume'', JNum (Finite 45200000)),
                        (''marketCap'', JStr ''$2.7T''),
                        (''id'', JNum (Finite 1)) ] \<rparr>,
        empty_mem \<lparr> stocks := [with_id 1 apple_payload], currentId := 2 \<rparr>)"
  by (simp add: post_stocks_def post_stocks_try_def catch_block_def apple_payload_parsed
      mem_storage_def mem_createStock_def empty_mem_def Let_def)
     (simp add: with_id_def apple_payload_def)

lemma post_infinite_payload:
  "post_stocks (safeParse insertStockSchema) mem_storage infinite_payload empty_mem
     = (\<lparr> status = 201,
          body = JObj [ (''symbol'', JStr ''AAPL''),
                        (''name'', JStr ''Apple Inc.''),
                        (''price'', JStr ''173.50''),
                        (''change'', JStr ''4.12''),
                        (''changePercent'', JStr ''2.4''),
                        (''volume'', JNull),
                        (''marketCap'', JStr ''$2.7T''),
                        (''id'', JNum (Finite 1)) ] \<rparr>,
        empty_mem \<lparr> stocks := [with_id 1 infinite_payload], currentId := 2 \<rparr>)"
  by (simp add: post_stocks_def post_stocks_try_def catch_block_def infinite_payload_parsed
      mem_storage_def mem_createStock_def empty_mem_def Let_def)
     (simp add: with_id_def infinite_payload_def)

theorem create_valid_payload_witness:
  "valid_payload apple_payload
   \<and> number_field is_finite (field apple_payload ''volume'')
   \<and> post_stocks (safeParse insertStockSchema) mem_storage apple_payload empty_mem
       = (\<lparr> status = 201,
            body = JObj [ (''symbol'', JStr ''AAPL''),
                          (''name'', JStr ''Apple Inc.''),
                          (''price'', JStr ''173.50''),
                          (''change'', JStr ''4.12''),
                          (''changePercent'', JStr ''2.4''),
                          (''volume'', JNum (Finite 45200000)),
                          (''marketCap'', JStr ''$2.7T''),
                          (''id'', JNum (Finite 1)) ] \<rparr>,
          empty_mem \<lparr> stocks := [with_id 1 apple_payload], currentId := 2 \<rparr>)
   \<and> map (field (body (fst (post_stocks (safeParse insertStockSchema) mem_storage
                              apple_payload empty_mem)))) creation_fields
       = map (field apple_payload) creation_fields
   \<and> valid_payload infinite_payload
   \<and> field infinite_payload ''volume'' = Some (JNum PosInf)
   \<and> field (body (fst (post_stocks (safeParse insertStockSchema) mem_storage
                         infinite_payload empty_mem))) ''volume'' = Some JNull"
proof -
  have fin: "number_field is_finite (field apple_payload ''volume'')"
    by (simp add: apple_payload_def field_def)
  have inf: "field infinite_payload ''volume'' = Some (JNum PosInf)"
    by (simp add: infinite_payload_def field_def)
  from create_valid_payload[OF valid_apple_payload, of empty_mem] fin obtain stock where
    p: "post_stocks (safeParse insertStockSchema) mem_storage apple_payload empty_mem
          = (\<lparr> status = 201, body = jsonify stock \<rparr>,
             empty_mem \<lparr> stocks := stocks empty_mem @ [stock],
                        currentId := currentId empty_mem + 1 \<rparr>)"
    and s: "\<forall>k \<in> set string_fields. field (jsonify stock) k = field apple_payload k"
    and v: "field (jsonify stock) ''volume'' = field apple_payload ''volume''"
    by blast
  from create_valid_payload[OF valid_infinite_payload, of empty_mem] inf obtain stock' where
    p': "post_stocks (safeParse insertStockSchema) mem_storage infinite_payload empty_mem
          = (\<lparr> status = 201, body = jsonify stock' \<rparr>,
             empty_mem \<lparr> stocks := stocks empty_mem @ [stock'],
                        currentId := currentId empty_mem + 1 \<rparr>)"
    and v': "field (jsonify stock') ''volume'' = Some JNull"
    by blast
  have "map (field (jsonify stock)) creation_fields = map (field apple_payload) creation_fields"
    using s v by (simp add: creation_fields_def string_fields_def)
  with p p' v' fin inf valid_apple_payload valid_infinite_payload post_apple_payload
  show ?thesis by simp
qed

text \<open>
  Claim C2 as it was stated fails for a volume that is not finite: the payload with volume
  \<open>Infinity\<close> (the JSON number \<open>1e400\<close>) is valid and is answered 201, and the volume
  of the returned record is \<open>null\<close>, not the volume submitted.
\<close>

theorem create_infinite_volume_counterexample:
  "valid_payload infinite_payload
   \<and> post_stocks (safeParse insertStockSchema) mem_storage infinite_payload empty_mem
       = (\<lparr> status = 201,
            body = JObj [ (''symbol'', JStr ''AAPL''),
                          (''name'', JStr ''Apple Inc.''),
                          (''price'', JStr ''173.50''),
                          (''change'', JStr ''4.12''),
                          (''changePercent'', JStr ''2.4''),
                          (''volume'', JNull),
                          (''marketCap'', JStr ''$2.7T''),
                          (''id'', JNum (Finite 1)) ] \<rparr>,
          empty_mem \<lparr> stocks := [with_id 1 infinite_payload], currentId := 2 \<rparr>)
   \<and> field infinite_payload ''volume'' = Some (JNum PosInf)
   \<and> field (body (fst (post_stocks (safeParse insertStockSchema) mem_storage
                         infinite_payload empty_mem))) ''volume'' = Some JNull
   \<and> map (field (body (fst (post_stocks (safeParse insertStockSchema) mem_storage
                              infinite_payload empty_mem)))) creation_fields
       \<noteq> map (field infinite_payload) creation_fields"
  by (simp add: post_infinite_payload valid_infinite_payload)
     (simp add: infinite_payload_def field_def creation_fields_def)

text \<open>
  Claim C3. For every request body, whatever the schema and the store, the handler of
  \<open>POST /api/stocks\<close> gives exactly one of three answers. When the schema rejects the
  body: 400, with the object holding the message \<open>Invalid stock data\<close> and, under
  \<open>errors\<close>, the list of the schema's issues as JSON writes them, and the store is left
  as it was; for a zod object schema the issues are written unchanged, there is at least
  one, and each is an object with a code, a path and a message. When the schema accepts
  and \<open>createStock\<close> returns: 201 with the created record. When \<open>createStock\<close> throws:
  500 with the object holding only the message \<open>Failed to create stock\<close>.
\<close>

theorem post_stocks_outcomes:
  "(schema req_body = Inl errors \<longrightarrow>
      post_stocks schema storage req_body st
        = (\<lparr> status = 400,
             body = JObj [ (''message'', JStr ''Invalid stock data''),
                           (''errors'', JArr (map jsonify errors)) ] \<rparr>, st))
   \<and> (safeParse shape req_body = Inl issues \<longrightarrow>
      post_stocks (safeParse shape) storage req_body st
        = (\<lparr> status = 400,
             body = JObj [ (''message'', JStr ''Invalid stock data''),
                           (''errors'', JArr issues) ] \<rparr>, st)
      \<and> issues \<noteq> []
      \<and> (\<forall>e \<in> set issues. \<exists>c p m. field e ''code'' = Some (JStr c)
                                  \<and> field e ''path'' = Some (JArr (map JStr p))
                                  \<and> field e ''message'' = Some (JStr m)))
   \<and> (schema req_body = Inr data \<and> createStock storage data st = (Inr stock, st') \<longrightarrow>
      post_stocks schema storage req_body st = (\<lparr> status = 201, body = jsonify stock \<rparr>, st'))
   \<and> (schema req_body = Inr data \<and> createStock storage data st = (Inl error, st') \<longrightarrow>
      post_stocks schema storage req_body st
        = (\<lparr> status = 500, body = JObj [(''message'', JStr ''Failed to create stock'')] \<rparr>, st'))
   \<and> status (fst (post_stocks schema storage req_body st)) \<in> {400, 201, 500}"
proof (intro conjI impI)
  assume "schema req_body = Inl errors"
  then show "post_stocks schema storage req_body st
        = (\<lparr> status = 400,
             body = JObj [ (''message'', JStr ''Invalid stock data''),
                           (''errors'', JArr (map jsonify errors)) ] \<rparr>, st)"
    by (simp add: post_stocks_def post_stocks_try_def catch_block_def)
next
  assume i: "safeParse shape req_body = Inl issues"
  then show "post_stocks (safeParse shape) storage req_body st
        = (\<lparr> status = 400,
             body = JObj [ (''message'', JStr ''Invalid stock data''),
                           (''errors'', JArr issues) ] \<rparr>, st)"
    by (simp add: post_stocks_def post_stocks_try_def catch_block_def
        safeParse_issue_jsonify[OF i])
  from i show "issues \<noteq> []"
    by (cases req_body) (auto simp: safeParse_def Let_def split: if_splits)
  show "\<forall>e \<in> set issues. \<exists>c p m. field e ''code'' = Some (JStr c)
                                  \<and> field e ''path'' = Some (JArr (map JStr p))
                                  \<and> field e ''message'' = Some (JStr m)"
    using safeParse_issue_structured[OF i] by blast
next
  assume "schema req_body = Inr data \<and> createStock storage data st = (Inr stock, st')"
  then show "post_stocks schema storage req_body st
               = (\<lparr> status = 201, body = jsonify stock \<rparr>, st')"
    by (simp add: post_stocks_def post_stocks_try_def catch_block_def)
next
  assume "schema req_body = Inr data \<and> createStock storage data st = (Inl error, st')"
  then show "post_stocks schema storage req_body st
        = (\<lparr> status = 500, body = JObj [(''message'', JStr ''Failed to create stock'')] \<rparr>, st')"
    by (simp add: post_stocks_def post_stocks_try_def catch_block_def)
next
  show "status (fst (post_stocks schema storage req_body st)) \<in> {400, 201, 500}"
    by (auto simp: post_stocks_def post_stocks_try_def catch_block_def
        split: sum.splits prod.splits)
qed

theorem post_stocks_outcomes_witness:
  "post_stocks (safeParse insertStockSchema) mem_storage no_symbol_payload empty_mem
     = (\<lparr> status = 400,
          body = JObj [ (''message'', JStr ''Invalid stock data''),
                        (''errors'',
                         JArr [JObj [ (''code'', JStr ''too_small''),
                                      (''minimum'', JNum (Finite 1)),
                                      (''type'', JStr ''string''),
                                      (''inclusive'', JBool True),
                                      (''exact'', JBool False),
                                      (''message'',
                                       JStr ''String must contain at least 1 character(s)''),
                                      (''path'', JArr [JStr ''symbol'']) ]]) ] \<rparr>,
        empty_mem)
   \<and> post_stocks (safeParse insertStockSchema) mem_storage apple_payload empty_mem
     = (\<lparr> status = 201,
          body = JObj [ (''symbol'', JStr ''AAPL''),
                        (''name'', JStr ''Apple Inc.''),
                        (''price'', JStr ''173.50''),
                        (''change'', JStr ''4.12''),
                        (''changePercent'', JStr ''2.4''),
                        (''volume'', JNum (Finite 45200000)),
                        (''marketCap'', JStr ''$2.7T''),
                        (''id'', JNum (Finite 1)) ] \<rparr>,
        empty_mem \<lparr> stocks := [with_id 1 apple_payload], currentId := 2 \<rparr>)
   \<and> post_stocks (safeParse insertStockSchema) (throwing_storage ''disk full'') apple_payload
        empty_mem
     = (\<lparr> status = 500, body = JObj [(''message'', JStr ''Failed to create stock'')] \<rparr>,
        empty_mem)"
proof -
  define issue where
    "issue = JObj [ (''code'', JStr ''too_small''),
                    (''minimum'', JNum (Finite 1)),
                    (''type'', JStr ''string''),
                    (''inclusive'', JBool True),
                    (''exact'', JBool False),
                    (''message'', JStr ''String must contain at least 1 character(s)''),
                    (''path'', JArr [JStr ''symbol'']) ]"
  have rejected: "safeParse insertStockSchema no_symbol_payload = Inl [issue]"
    by (simp add: issue_def no_symbol_payload_issues)
  have created: "createStock mem_storage apple_payload empty_mem
      = (Inr (with_id 1 apple_payload),
         empty_mem \<lparr> stocks := [with_id 1 apple_payload], currentId := 2 \<rparr>)"
    by (simp add: mem_storage_def mem_createStock_def empty_mem_def Let_def)
  have thrown: "createStock (throwing_storage ''disk full'') apple_payload empty_mem
      = (Inl (Error ''disk full''), empty_mem)"
    by (simp add: throwing_storage_def)
  have written: "jsonify (with_id 1 apple_payload)
      = JObj [ (''symbol'', JStr ''AAPL''),
               (''name'', JStr ''Apple Inc.''),
               (''price'', JStr ''173.50''),
               (''change'', JStr ''4.12''),
               (''changePercent'', JStr ''2.4''),
               (''volume'', JNum (Finite 45200000)),
               (''marketCap'', JStr ''$2.7T''),
               (''id'', JNum (Finite 1)) ]"
    by (simp add: with_id_def apple_payload_def)
  have "jsonify issue = issue"
    by (simp add: issue_def)
  then show ?thesis
    using post_stocks_outcomes[where schema = "safeParse insertStockSchema"
            and shape = insertStockSchema
            and req_body = no_symbol_payload and storage = mem_storage and st = empty_mem
            and errors = "[issue]" and issues = "[issue]"]
          post_stocks_outcomes[where schema = "safeParse insertStockSchema"
            and req_body = apple_payload and storage = mem_storage and st = empty_mem
            and data = apple_payload and stock = "with_id 1 apple_payload"
            and st' = "empty_mem \<lparr> stocks := [with_id 1 apple_payload], currentId := 2 \<rparr>"]
          post_stocks_outcomes[where schema = "safeParse insertStockSchema"
            and req_body = apple_payload and storage = "throwing_storage ''disk full''"
            and st = empty_mem and data = apple_payload and error = "Error ''disk full''"
            and st' = empty_mem]
          rejected apple_payload_parsed created thrown written
    by (simp add: issue_def)
qed

section \<open>The submission flow of the client\<close>

lemma valid_apple_form: "valid_payload (form_json (form apple_client))"
  by (simp add: valid_payload_def form_json_def apple_client_def apple_form_def field_def)

text \<open>
  Claim C4. When a submission ends in failure (a network error, or a response that is
  not 2xx), the client shows the destructive toast and nothing else changes: the form
  keeps the values entered, the dialog stays as it was, no query is invalidated, and no
  further request is issued.
\<close>

theorem failure_keeps_form:
  assumes "failure r"
  shows "toasts (settled r c)
           = toasts c @ [\<lparr> title = ''Error'',
                            description = ''Failed to add stock to watchlist. Please try again.'',
                            variant = Some ''destructive'' \<rparr>]
         \<and> form (settled r c) = form c
         \<and> form_errors (settled r c) = form_errors c
         \<and> calls (settled r c) = calls c
         \<and> is_open (settled r c) = is_open c
         \<and> invalidated (settled r c) = invalidated c"
  using assms
  by (cases r) (auto simp: settled_def apiRequest_def onError_def)

theorem failure_keeps_form_witness:
  "failure (HttpResponse 400 (JObj [(''message'', JStr ''Invalid stock data'')]))
   \<and> form (settled (HttpResponse 400 (JObj [(''message'', JStr ''Invalid stock data'')]))
             (handleSubmit apple_client))
       = apple_form
   \<and> length (calls (settled (HttpResponse 400 (JObj [(''message'', JStr ''Invalid stock data'')]))
                (handleSubmit apple_client))) = 1
   \<and> map variant (toasts (settled (HttpResponse 400 (JObj [(''message'', JStr ''Invalid stock data'')]))
                (handleSubmit apple_client))) = [Some ''destructive'']
   \<and> failure NetworkError
   \<and> form (settled NetworkError (handleSubmit apple_client)) = apple_form"
proof -
  have f1: "failure (HttpResponse 400 (JObj [(''message'', JStr ''Invalid stock data'')]))"
    by simp
  have f2: "failure NetworkError" by simp
  have h: "form (handleSubmit apple_client) = apple_form
         \<and> length (calls (handleSubmit apple_client)) = 1
         \<and> toasts (handleSubmit apple_client) = []"
    using valid_apple_form by (simp add: handleSubmit_eq) (simp add: apple_client_def)
  show ?thesis
    using failure_keeps_form[OF f1, of "handleSubmit apple_client"]
          failure_keeps_form[OF f2, of "handleSubmit apple_client"] h f1 f2
    by simp
qed

text \<open>
  Claim C5. When a submission ends in success (the server responds 2xx), the client
  performs all four effects: it invalidates the cached stock-list query, resets the form
  to its empty defaults, closes the dialog, and shows the success toast.
\<close>

theorem success_effects:
  assumes "200 \<le> s" and "s < 300"
  shows "invalidated (settled (HttpResponse s b) c) = invalidated c @ [[''/api/stocks'']]
         \<and> form (settled (HttpResponse s b) c)
             = \<lparr> symbol = [], name = [], price = [], change = [], changePercent = [],
                 volume = Finite 0, marketCap = [] \<rparr>
         \<and> is_open (settled (HttpResponse s b) c) = False
         \<and> toasts (settled (HttpResponse s b) c)
             = toasts c @ [\<lparr> title = ''Success'',
                              description = ''Stock added to watchlist successfully!'',
                              variant = None \<rparr>]"
  using assms
  by (simp add: settled_def apiRequest_def onSuccess_def defaultValues_def)

theorem success_effects_witness:
  "(200::nat) \<le> 201 \<and> (201::nat) < 300
   \<and> invalidated (settled (HttpResponse 201 (with_id 1 apple_payload)) (handleSubmit apple_client))
       = [[''/api/stocks'']]
   \<and> form (settled (HttpResponse 201 (with_id 1 apple_payload)) (handleSubmit apple_client))
       = \<lparr> symbol = [], name = [], price = [], change = [], changePercent = [],
           volume = Finite 0, marketCap = [] \<rparr>
   \<and> is_open (settled (HttpResponse 201 (with_id 1 apple_payload)) (handleSubmit apple_client))
       = False
   \<and> map title (toasts (settled (HttpResponse 201 (with_id 1 apple_payload))
                   (handleSubmit apple_client))) = [''Success'']"
proof -
  have a: "(200::nat) \<le> 201" and b: "(201::nat) < 300" by simp_all
  have h: "invalidated (handleSubmit apple_client) = [] \<and> toasts (handleSubmit apple_client) = []"
    using valid_apple_form by (simp add: handleSubmit_eq) (simp add: apple_client_def)
  show ?thesis
    using success_effects[OF a b, of "with_id 1 apple_payload" "handleSubmit apple_client"] h
    by simp
qed

text \<open>
  Claim C6. A form whose symbol is the empty string is blocked by the client's validation:
  \<open>handleSubmit\<close> issues no request and records the issue of the symbol field. A body
  with an empty symbol posted directly to \<open>POST /api/stocks\<close> is answered 400; the
  body of the response is the object with the message \<open>Invalid stock data\<close> and the list
  \<open>errors\<close>, and that list has the entry whose path is the symbol field; the store is
  left as it was.
\<close>

theorem empty_symbol_rejected:
  "(symbol (form c) = [] \<longrightarrow>
      calls (handleSubmit c) = calls c
      \<and> JObj [ (''code'', JStr ''too_small''),
               (''minimum'', JNum (Finite 1)),
               (''type'', JStr ''string''),
               (''inclusive'', JBool True),
               (''exact'', JBool False),
               (''message'', JStr ''Symbol is required''),
               (''path'', JArr [JStr ''symbol'']) ] \<in> set (form_errors (handleSubmit c)))
   \<and> (field req_body ''symbol'' = Some (JStr []) \<longrightarrow>
      (\<exists>errors. post_stocks (safeParse insertStockSchema) storage req_body st
                 = (\<lparr> status = 400,
                      body = JObj [ (''message'', JStr ''Invalid stock data''),
                                    (''errors'', JArr errors) ] \<rparr>, st)
              \<and> JObj [ (''code'', JStr ''too_small''),
                       (''minimum'', JNum (Finite 1)),
                       (''type'', JStr ''string''),
                       (''inclusive'', JBool True),
                       (''exact'', JBool False),
                       (''message'', JStr ''String must contain at least 1 character(s)''),
                       (''path'', JArr [JStr ''symbol'']) ] \<in> set errors))"
proof (intro conjI impI)
  assume e: "symbol (form c) = []"
  then have nv: "\<not> valid_payload (form_json (form c))"
    by (simp add: valid_payload_def form_json_def field_def)
  then show "calls (handleSubmit c) = calls c"
    by (simp add: handleSubmit_eq)
  have "JObj [ (''code'', JStr ''too_small''),
               (''minimum'', JNum (Finite 1)),
               (''type'', JStr ''string''),
               (''inclusive'', JBool True),
               (''exact'', JBool False),
               (''message'', JStr ''Symbol is required''),
               (''path'', JArr [JStr ''symbol'']) ]
          \<in> set (object_issues formSchema (case form_json (form c) of JObj kvs \<Rightarrow> kvs | _ \<Rightarrow> []))"
    using e by (simp add: form_json_def formSchema_shape object_issues_def too_small_issue_def)
  then show "JObj [ (''code'', JStr ''too_small''),
               (''minimum'', JNum (Finite 1)),
               (''type'', JStr ''string''),
               (''inclusive'', JBool True),
               (''exact'', JBool False),
               (''message'', JStr ''Symbol is required''),
               (''path'', JArr [JStr ''symbol'']) ] \<in> set (form_errors (handleSubmit c))"
    using nv by (simp add: handleSubmit_eq form_json_def)
next
  assume e: "field req_body ''symbol'' = Some (JStr [])"
  then obtain kvs where b: "req_body = JObj kvs" and s: "map_of kvs ''symbol'' = Some (JStr [])"
    by (cases req_body) (simp_all add: field_def)
  have nv: "\<not> valid_payload req_body"
    using e by (simp add: valid_payload_def)
  have p: "safeParse insertStockSchema req_body = Inl (object_issues insertStockSchema kvs)"
    using nv b by (simp add: safeParse_insertStockSchema)
  have i: "JObj [ (''code'', JStr ''too_small''),
                  (''minimum'', JNum (Finite 1)),
                  (''type'', JStr ''string''),
                  (''inclusive'', JBool True),
                  (''exact'', JBool False),
                  (''message'', JStr ''String must contain at least 1 character(s)''),
                  (''path'', JArr [JStr ''symbol'']) ] \<in> set (object_issues insertStockSchema kvs)"
    using s by (simp add: insertStockSchema_def object_issues_def too_small_issue_def show_int_1)
  have "post_stocks (safeParse insertStockSchema) storage req_body st
          = (\<lparr> status = 400,
               body = JObj [ (''message'', JStr ''Invalid stock data''),
                             (''errors'', JArr (object_issues insertStockSchema kvs)) ] \<rparr>, st)"
    by (simp add: post_stocks_def post_stocks_try_def catch_block_def p
        safeParse_issue_jsonify[OF p])
  with i show "\<exists>errors. post_stocks (safeParse insertStockSchema) storage req_body st
                 = (\<lparr> status = 400,
                      body = JObj [ (''message'', JStr ''Invalid stock data''),
                                    (''errors'', JArr errors) ] \<rparr>, st)
              \<and> JObj [ (''code'', JStr ''too_small''),
                       (''minimum'', JNum (Finite 1)),
                       (''type'', JStr ''string''),
                       (''inclusive'', JBool True),
                       (''exact'', JBool False),
                       (''message'', JStr ''String must contain at least 1 character(s)''),
                       (''path'', JArr [JStr ''symbol'']) ] \<in> set errors"
    by blast
qed

theorem empty_symbol_rejected_witness:
  "calls (handleSubmit (apple_client \<lparr> form := apple_form \<lparr> symbol := [] \<rparr> \<rparr>)) = []
   \<and> JObj [ (''code'', JStr ''too_small''),
            (''minimum'', JNum (Finite 1)),
            (''type'', JStr ''string''),
            (''inclusive'', JBool True),
            (''exact'', JBool False),
            (''message'', JStr ''Symbol is required''),
            (''path'', JArr [JStr ''symbol'']) ]
       \<in> set (form_errors (handleSubmit (apple_client \<lparr> form := apple_form \<lparr> symbol := [] \<rparr> \<rparr>)))
   \<and> post_stocks (safeParse insertStockSchema) mem_storage no_symbol_payload empty_mem
       = (\<lparr> status = 400,
            body = JObj [ (''message'', JStr ''Invalid stock data''),
                          (''errors'',
                           JArr [JObj [ (''code'', JStr ''too_small''),
                                        (''minimum'', JNum (Finite 1)),
                                        (''type'', JStr ''string''),
                                        (''inclusive'', JBool True),
                                        (''exact'', JBool False),
                                        (''message'',
                                         JStr ''String must contain at least 1 character(s)''),
                                        (''path'', JArr [JStr ''symbol'']) ]]) ] \<rparr>,
          empty_mem)"
proof -
  have a: "symbol (form (apple_client \<lparr> form := apple_form \<lparr> symbol := [] \<rparr> \<rparr>)) = []"
    by simp
  have b: "field no_symbol_payload ''symbol'' = Some (JStr [])"
    by (simp add: field_def no_symbol_payload_def)
  have c: "calls (apple_client \<lparr> form := apple_form \<lparr> symbol := [] \<rparr> \<rparr>) = []"
    by (simp add: apple_client_def)
  have d: "post_stocks (safeParse insertStockSchema) mem_storage no_symbol_payload empty_mem
       = (\<lparr> status = 400,
            body = JObj [ (''message'', JStr ''Invalid stock data''),
                          (''errors'',
                           JArr [JObj [ (''code'', JStr ''too_small''),
                                        (''minimum'', JNum (Finite 1)),
                                        (''type'', JStr ''string''),
                                        (''inclusive'', JBool True),
                                        (''exact'', JBool False),
                                        (''message'',
                                         JStr ''String must contain at least 1 character(s)''),
                                        (''path'', JArr [JStr ''symbol'']) ]]) ] \<rparr>,
          empty_mem)"
    by (simp add: post_stocks_def post_stocks_try_def catch_block_def no_symbol_payload_issues)
  show ?thesis
    using empty_symbol_rejected[of "apple_client \<lparr> form := apple_form \<lparr> symbol := [] \<rparr> \<rparr>"
            no_symbol_payload mem_storage empty_mem] a b c d
    by simp
qed

section \<open>Reading transactions\<close>

text \<open>
  Claim C7. When the store has no transaction for the user (\<open>getTransactions\<close> returns
  the empty array), \<open>GET /api/transactions/{userId}\<close> answers 200 with the empty array;
  and this route never answers 404, whatever the store does.
\<close>

theorem no_transactions_is_200:
  "(getTransactions storage (parseInt userId) st = (Inr (JArr []), st') \<longrightarrow>
      get_transactions storage userId st = (\<lparr> status = 200, body = JArr [] \<rparr>, st'))
   \<and> status (fst (get_transactions storage userId st)) \<noteq> 404"
  by (auto simp: get_transactions_def get_transactions_try_def catch_block_def Let_def
      split: sum.splits prod.splits)

theorem no_transactions_is_200_witness:
  "getTransactions mem_storage (parseInt (code_units ''42'')) empty_mem
     = (Inr (JArr []), empty_mem)
   \<and> get_transactions mem_storage (code_units ''42'') empty_mem
       = (\<lparr> status = 200, body = JArr [] \<rparr>, empty_mem)"
proof -
  have h: "getTransactions mem_storage (parseInt (code_units ''42'')) empty_mem
             = (Inr (JArr []), empty_mem)"
    by (simp add: parseInt_42 mem_storage_def mem_getTransactions_def empty_mem_def)
  show ?thesis
    using no_transactions_is_200[of mem_storage "code_units ''42''" empty_mem empty_mem] h
    by simp
qed

section \<open>Error responses\<close>

text \<open>
  Claim C8. Whatever is thrown while a request is handled, the answer is 500 with the
  route's fixed message: two runs of a route that throw (any two errors, from any two
  stores) give the same response. Every response with an error status is that 500
  message, the fixed 404 message of the portfolio route, or the 400 of
  \<open>POST /api/stocks\<close> carrying the issues of the schema; no other detail is returned.
\<close>

theorem errors_are_generic:
  "(fst (route_try schema1 storage1 req st1) = Inl e1
      \<and> fst (route_try schema2 storage2 req st2) = Inl e2 \<longrightarrow>
      fst (registerRoutes schema1 storage1 req st1)
        = \<lparr> status = 500, body = JObj [(''message'', JStr (generic_message req))] \<rparr>
      \<and> fst (registerRoutes schema2 storage2 req st2)
        = fst (registerRoutes schema1 storage1 req st1))
   \<and> (400 \<le> status (fst (registerRoutes schema storage req st)) \<longrightarrow>
        fst (registerRoutes schema storage req st)
          = \<lparr> status = 500, body = JObj [(''message'', JStr (generic_message req))] \<rparr>
      \<or> fst (registerRoutes schema storage req st)
          = \<lparr> status = 404, body = JObj [(''message'', JStr ''Portfolio not found'')] \<rparr>
      \<or> (\<exists>b errors. req = POST_stocks b \<and> schema b = Inl errors
            \<and> fst (registerRoutes schema storage req st)
                = \<lparr> status = 400,
                    body = JObj [ (''message'', JStr ''Invalid stock data''),
                                  (''errors'', JArr (map jsonify errors)) ] \<rparr>))"
proof (intro conjI impI)
  assume "fst (route_try schema1 storage1 req st1) = Inl e1
      \<and> fst (route_try schema2 storage2 req st2) = Inl e2"
  then show "fst (registerRoutes schema1 storage1 req st1)
        = \<lparr> status = 500, body = JObj [(''message'', JStr (generic_message req))] \<rparr>"
    and "fst (registerRoutes schema2 storage2 req st2)
        = fst (registerRoutes schema1 storage1 req st1)"
    by (cases req; cases "route_try schema1 storage1 req st1";
        cases "route_try schema2 storage2 req st2";
        simp add: get_portfolio_def get_stocks_def get_transactions_def post_stocks_def
          catch_block_def)+
next
  assume "400 \<le> status (fst (registerRoutes schema storage req st))"
  then show "fst (registerRoutes schema storage req st)
          = \<lparr> status = 500, body = JObj [(''message'', JStr (generic_message req))] \<rparr>
      \<or> fst (registerRoutes schema storage req st)
          = \<lparr> status = 404, body = JObj [(''message'', JStr ''Portfolio not found'')] \<rparr>
      \<or> (\<exists>b errors. req = POST_stocks b \<and> schema b = Inl errors
            \<and> fst (registerRoutes schema storage req st)
                = \<lparr> status = 400,
                    body = JObj [ (''message'', JStr ''Invalid stock data''),
                                  (''errors'', JArr (map jsonify errors)) ] \<rparr>)"
    by (cases req)
       (auto simp: get_portfolio_def get_portfolio_try_def get_stocks_def get_stocks_try_def
          get_transactions_def get_transactions_try_def post_stocks_def post_stocks_try_def
          catch_block_def Let_def
          split: sum.splits prod.splits option.splits if_splits)
qed

theorem errors_are_generic_witness:
  "fst (registerRoutes (safeParse insertStockSchema) (throwing_storage ''disk full'')
          (POST_stocks apple_payload) empty_mem)
     = \<lparr> status = 500, body = JObj [(''message'', JStr ''Failed to create stock'')] \<rparr>
   \<and> fst (registerRoutes (safeParse insertStockSchema) (throwing_storage ''secret at line 7'')
          (POST_stocks apple_payload) empty_mem)
     = \<lparr> status = 500, body = JObj [(''message'', JStr ''Failed to create stock'')] \<rparr>
   \<and> fst (registerRoutes (safeParse insertStockSchema) mem_storage
          (POST_stocks no_symbol_payload) empty_mem)
     = \<lparr> status = 400,
         body = JObj [ (''message'', JStr ''Invalid stock data''),
                       (''errors'',
                        JArr [JObj [ (''code'', JStr ''too_small''),
                                     (''minimum'', JNum (Finite 1)),
                                     (''type'', JStr ''string''),
                                     (''inclusive'', JBool True),
                                     (''exact'', JBool False),
                                     (''message'',
                                      JStr ''String must contain at least 1 character(s)''),
                                     (''path'', JArr [JStr ''symbol'']) ]]) ] \<rparr>"
proof -
  have t1: "fst (route_try (safeParse insertStockSchema) (throwing_storage ''disk full'')
               (POST_stocks apple_payload) empty_mem) = Inl (Error ''disk full'')"
    by (simp add: post_stocks_try_def apple_payload_parsed throwing_storage_def)
  have t2: "fst (route_try (safeParse insertStockSchema) (throwing_storage ''secret at line 7'')
               (POST_stocks apple_payload) empty_mem) = Inl (Error ''secret at line 7'')"
    by (simp add: post_stocks_try_def apple_payload_parsed throwing_storage_def)
  have r: "fst (registerRoutes (safeParse insertStockSchema) mem_storage
               (POST_stocks no_symbol_payload) empty_mem)
     = \<lparr> status = 400,
         body = JObj [ (''message'', JStr ''Invalid stock data''),
                       (''errors'',
                        JArr [JObj [ (''code'', JStr ''too_small''),
                                     (''minimum'', JNum (Finite 1)),
                                     (''type'', JStr ''string''),
                                     (''inclusive'', JBool True),
                                     (''exact'', JBool False),
                                     (''message'',
                                      JStr ''String must contain at least 1 character(s)''),
                                     (''path'', JArr [JStr ''symbol'']) ]]) ] \<rparr>"
    by (simp add: post_stocks_def post_stocks_try_def catch_block_def no_symbol_payload_issues)
  have s: "400 \<le> status (fst (registerRoutes (safeParse insertStockSchema) mem_storage
               (POST_stocks no_symbol_payload) empty_mem))"
    unfolding r by simp
  show ?thesis
    using errors_are_generic[where ?schema1.0 = "safeParse insertStockSchema"
            and ?storage1.0 = "throwing_storage ''disk full''"
            and ?schema2.0 = "safeParse insertStockSchema"
            and ?storage2.0 = "throwing_storage ''secret at line 7''"
            and req = "POST_stocks apple_payload" and ?st1.0 = empty_mem and ?st2.0 = empty_mem
            and ?e1.0 = "Error ''disk full''" and ?e2.0 = "Error ''secret at line 7''"
            and schema = "safeParse insertStockSchema" and storage = mem_storage
            and st = empty_mem]
          errors_are_generic[where req = "POST_stocks no_symbol_payload"
            and schema = "safeParse insertStockSchema" and storage = mem_storage
            and st = empty_mem and ?schema1.0 = "safeParse insertStockSchema"
            and ?storage1.0 = mem_storage and ?st1.0 = empty_mem
            and ?schema2.0 = "safeParse insertStockSchema"
            and ?storage2.0 = mem_storage and ?st2.0 = empty_mem]
          t1 t2 r s
    by simp
qed

section \<open>The two copies of the component\<close>

text \<open>
  Claim C9. The two copies of \<open>AddStockModal\<close> in \<open>add-stock-modal.tsx\<close> behave alike:
  the same validation schema, the same default values, the same request, the same effects
  on success and on failure, and the same handlers for submission and for the symbol and
  volume inputs.
\<close>

theorem copies_equivalent:
  "formSchema_2 = formSchema
   \<and> defaultValues_2 = defaultValues
   \<and> mutationFn_2 = mutationFn
   \<and> onSuccess_2 = onSuccess
   \<and> onError_2 = onError
   \<and> handleSubmit_2 = handleSubmit
   \<and> settled_2 = settled
   \<and> symbol_onChange_2 = symbol_onChange
   \<and> volume_onChange_2 = volume_onChange"
proof -
  have s: "formSchema_2 = formSchema"
    by (simp add: formSchema_2_def formSchema_def)
  have d: "defaultValues_2 = defaultValues"
    by (simp add: defaultValues_2_def defaultValues_def)
  have m: "mutationFn_2 = mutationFn"
    by (rule ext) (simp add: mutationFn_2_def mutationFn_def)
  have os: "onSuccess_2 = onSuccess"
    by (rule ext) (simp add: onSuccess_2_def onSuccess_def d)
  have oe: "onError_2 = onError"
    by (rule ext) (simp add: onError_2_def onError_def)
  have mu: "mutate_2 = mutate"
    by (intro ext) (simp add: mutate_2_def mutate_def m)
  have ob: "onSubmit_2 = onSubmit"
    by (intro ext) (simp add: onSubmit_2_def onSubmit_def mu)
  have h: "handleSubmit_2 = handleSubmit"
  proof (rule ext)
    fix c
    show "handleSubmit_2 c = handleSubmit c"
      unfolding handleSubmit_2_def handleSubmit_def s ob ..
  qed
  have t: "settled_2 = settled"
  proof (intro ext)
    fix r c
    show "settled_2 r c = settled r c"
      unfolding settled_2_def settled_def os oe ..
  qed
  have sc: "symbol_onChange_2 = symbol_onChange"
    by (intro ext) (simp add: symbol_onChange_2_def symbol_onChange_def)
  have vc: "volume_onChange_2 = volume_onChange"
    by (intro ext) (simp add: volume_onChange_2_def volume_onChange_def)
  from s d m os oe h t sc vc show ?thesis by simp
qed

section \<open>The volume input\<close>








end
